theory Spec2Isabelle
  imports Main "HOL-Library.Word"
begin

section \<open>Strings and bytes\<close>

text \<open>
  A JavaScript string is a sequence of 16-bit code units; a chunk handed to the stream
  writer is a sequence of bytes. \<open>js\<close> turns an Isabelle literal (characters
  0..255) into the JavaScript string with the same code units.
\<close>

type_synonym utf16 = "16 word list"
type_synonym bytes = "8 word list"

definition js :: "string \<Rightarrow> utf16" where
  "js s = map (\<lambda>c. of_nat (of_char c)) s"

definition is_high :: "16 word \<Rightarrow> bool" where
  "is_high u = (0xD800 \<le> u \<and> u \<le> 0xDBFF)"

definition is_low :: "16 word \<Rightarrow> bool" where
  "is_low u = (0xDC00 \<le> u \<and> u \<le> 0xDFFF)"

definition is_surrogate :: "16 word \<Rightarrow> bool" where
  "is_surrogate u = (0xD800 \<le> u \<and> u \<le> 0xDFFF)"

text \<open>
  \<open>new TextEncoder().encode(s)\<close>: the string is read as Unicode scalar values (a
  surrogate pair is one code point, a lone surrogate becomes U+FFFD) and each is written
  in UTF-8.
\<close>

fun code_points :: "utf16 \<Rightarrow> nat list" where
  "code_points [] = []"
| "code_points [u] = [if is_surrogate u then 0xFFFD else unat u]"
| "code_points (u # v # us) =
     (if is_high u \<and> is_low v
      then (0x10000 + (unat u - 0xD800) * 0x400 + (unat v - 0xDC00)) # code_points us
      else (if is_surrogate u then 0xFFFD else unat u) # code_points (v # us))"

definition utf8 :: "nat \<Rightarrow> bytes" where
  "utf8 c =
     (if c < 0x80 then [of_nat c]
      else if c < 0x800 then [of_nat (0xC0 + c div 0x40), of_nat (0x80 + c mod 0x40)]
      else if c < 0x10000 then
        [of_nat (0xE0 + c div 0x1000), of_nat (0x80 + c div 0x40 mod 0x40),
         of_nat (0x80 + c mod 0x40)]
      else
        [of_nat (0xF0 + c div 0x40000), of_nat (0x80 + c div 0x1000 mod 0x40),
         of_nat (0x80 + c div 0x40 mod 0x40), of_nat (0x80 + c mod 0x40)])"

definition encode :: "utf16 \<Rightarrow> bytes" where
  "encode s = concat (map utf8 (code_points s))"


section \<open>JSON values and \<open>JSON.stringify\<close>\<close>

text \<open>
  The content of a JSON text, with the number representation as a parameter. An object
  lists its properties in enumeration order.
\<close>

datatype 'n json =
    JNull
  | JBool bool
  | JNum 'n
  | JStr utf16
  | JArr "'n json list"
  | JObj "(utf16 \<times> 'n json) list"

text \<open>\<open>const TERMINATION_PAYLOAD = { payload: null, status: "terminate" }\<close>\<close>

definition TERMINATION_PAYLOAD :: "'n json" where
  "TERMINATION_PAYLOAD = JObj [(js ''payload'', JNull), (js ''status'', JStr (js ''terminate''))]"

text \<open>
  A number of the server is a double. A finite one is given by the decimal significand
  and exponent of its shortest representation, the digits that \<open>Number::toString\<close>
  computes for it (at most 17, the rounding behind them is floating point and not
  modelled): \<open>Finite m e\<close> is \<open>m\<close> times ten to the \<open>e\<close>, both zeros are
  \<open>Finite 0 0\<close>. \<open>Number_toString\<close> is the decimal case of
  \<open>Number::toString\<close>: trailing zeros of the significand go to the exponent, and the
  position of the decimal point decides between plain digits, a fraction and the
  exponent form.
\<close>

datatype number = NaN | Infinity | Negative_Infinity | Finite int int

function show_digits :: "int \<Rightarrow> utf16" where
  "show_digits n =
     (if n < 10 then [of_int (48 + n)] else show_digits (n div 10) @ [of_int (48 + n mod 10)])"
  by pat_completeness auto
termination
  by (relation "measure nat") auto

declare show_digits.simps [simp del]

function strip_zeros :: "int \<Rightarrow> int \<Rightarrow> int \<times> int" where
  "strip_zeros m e =
     (if m \<le> 0 \<or> m mod 10 \<noteq> 0 then (m, e) else strip_zeros (m div 10) (e + 1))"
  by pat_completeness auto
termination
  by (relation "measure (\<lambda>(m, e). nat m)") auto

declare strip_zeros.simps [simp del]

definition exponent_part :: "int \<Rightarrow> utf16" where
  "exponent_part x =
     0x65 # (if x < 0 then 0x2D # show_digits (- x) else 0x2B # show_digits x)"

definition digits_toString :: "utf16 \<Rightarrow> int \<Rightarrow> utf16" where
  "digits_toString s n =
     (let k = int (length s) in
      if k \<le> n \<and> n \<le> 21 then s @ replicate (nat (n - k)) 0x30
      else if 0 < n \<and> n \<le> 21 then take (nat n) s @ [0x2E] @ drop (nat n) s
      else if - 6 < n \<and> n \<le> 0 then [0x30, 0x2E] @ replicate (nat (- n)) 0x30 @ s
      else (case s of c # d # ds \<Rightarrow> c # 0x2E # d # ds | _ \<Rightarrow> s) @ exponent_part (n - 1))"

definition Number_toString :: "number \<Rightarrow> utf16" where
  "Number_toString x =
     (case x of
        NaN \<Rightarrow> js ''NaN''
      | Infinity \<Rightarrow> js ''Infinity''
      | Negative_Infinity \<Rightarrow> js ''-Infinity''
      | Finite m e \<Rightarrow>
          if m = 0 then js ''0''
          else
            (case strip_zeros \<bar>m\<bar> e of (d, e') \<Rightarrow>
               (if m < 0 then [0x2D] else []) @
               digits_toString (show_digits d) (e' + int (length (show_digits d)))))"

text \<open>
  Quoting a string: the two-character escapes, \<open>\uXXXX\<close> (lower-case hex) for the
  other control characters and for lone surrogates, everything else as it is.
\<close>

definition hex_digit :: "nat \<Rightarrow> 16 word" where
  "hex_digit n = (if n < 10 then of_nat (48 + n) else of_nat (87 + n))"

definition unicode_escape :: "16 word \<Rightarrow> utf16" where
  "unicode_escape u =
     [0x5C, 0x75, hex_digit (unat u div 4096), hex_digit (unat u div 256 mod 16),
      hex_digit (unat u div 16 mod 16), hex_digit (unat u mod 16)]"

definition quote_unit :: "16 word \<Rightarrow> utf16" where
  "quote_unit u =
     (if u = 0x08 then [0x5C, 0x62]
      else if u = 0x09 then [0x5C, 0x74]
      else if u = 0x0A then [0x5C, 0x6E]
      else if u = 0x0C then [0x5C, 0x66]
      else if u = 0x0D then [0x5C, 0x72]
      else if u = 0x22 then [0x5C, 0x22]
      else if u = 0x5C then [0x5C, 0x5C]
      else if u < 0x20 \<or> is_surrogate u then unicode_escape u
      else [u])"

fun quote_units :: "utf16 \<Rightarrow> utf16" where
  "quote_units [] = []"
| "quote_units [u] = quote_unit u"
| "quote_units (u # v # us) =
     (if is_high u \<and> is_low v then u # v # quote_units us
      else quote_unit u @ quote_units (v # us))"

definition JSON_quote :: "utf16 \<Rightarrow> utf16" where
  "JSON_quote s = 0x22 # quote_units s @ [0x22]"

text \<open>
  The text \<open>JSON.stringify\<close> writes for a JSON content: no white space, a number
  that is not finite as \<open>null\<close>.
\<close>

fun JSON_stringify :: "number json \<Rightarrow> utf16"
  and stringify_elements :: "number json list \<Rightarrow> utf16"
  and stringify_members :: "(utf16 \<times> number json) list \<Rightarrow> utf16"
where
  "JSON_stringify JNull = js ''null''"
| "JSON_stringify (JBool b) = (if b then js ''true'' else js ''false'')"
| "JSON_stringify (JNum n) =
     (case n of Finite m e \<Rightarrow> Number_toString n | _ \<Rightarrow> js ''null'')"
| "JSON_stringify (JStr s) = JSON_quote s"
| "JSON_stringify (JArr xs) = js ''['' @ stringify_elements xs @ js '']''"
| "JSON_stringify (JObj ms) = js ''{'' @ stringify_members ms @ js ''}''"
| "stringify_elements [] = []"
| "stringify_elements [x] = JSON_stringify x"
| "stringify_elements (x # y # xs) = JSON_stringify x @ js '','' @ stringify_elements (y # xs)"
| "stringify_members [] = []"
| "stringify_members [(k, v)] = JSON_quote k @ js '':'' @ JSON_stringify v"
| "stringify_members ((k, v) # m # ms) =
     JSON_quote k @ js '':'' @ JSON_stringify v @ js '','' @ stringify_members (m # ms)"

text \<open>
  A value as a caller can pass it (\<open>Record<string, any> | Type\<close>), as far as
  \<open>JSON.stringify\<close> tells values apart. \<open>Undefined\<close> also stands for a function
  or a symbol; \<open>Cyclic\<close> is a property or element that refers back to an object or
  array around it. A value with a \<open>toJSON\<close> method (a date) is given by what the
  method returns; getters and \<open>toJSON\<close> methods are taken to return normally.

  \<open>JSON.stringify\<close> walks the value in order: it throws a TypeError at a BigInt and
  at a reference back into the value; \<open>undefined\<close> is left out of an object, is
  \<open>null\<close> in an array, and alone gives \<open>undefined\<close>, not a text.
\<close>

datatype js_error = SyntaxError | TypeError

datatype jsvalue =
    Undefined
  | Null
  | Boolean bool
  | Number number
  | BigInt int
  | String utf16
  | Array "jsvalue list"
  | Object "(utf16 \<times> jsvalue) list"
  | Cyclic

fun JSON_content :: "jsvalue \<Rightarrow> js_error + number json option"
  and content_elements :: "jsvalue list \<Rightarrow> js_error + number json list"
  and content_members :: "(utf16 \<times> jsvalue) list \<Rightarrow> js_error + (utf16 \<times> number json) list"
where
  "JSON_content Undefined = Inr None"
| "JSON_content Null = Inr (Some JNull)"
| "JSON_content (Boolean b) = Inr (Some (JBool b))"
| "JSON_content (Number n) = Inr (Some (JNum n))"
| "JSON_content (BigInt i) = Inl TypeError"
| "JSON_content (String s) = Inr (Some (JStr s))"
| "JSON_content (Array xs) =
     (case content_elements xs of Inl e \<Rightarrow> Inl e | Inr elems \<Rightarrow> Inr (Some (JArr elems)))"
| "JSON_content (Object ms) =
     (case content_members ms of Inl e \<Rightarrow> Inl e | Inr jms \<Rightarrow> Inr (Some (JObj jms)))"
| "JSON_content Cyclic = Inl TypeError"
| "content_elements [] = Inr []"
| "content_elements (x # xs) =
     (case JSON_content x of
        Inl e \<Rightarrow> Inl e
      | Inr j \<Rightarrow>
          (case content_elements xs of
             Inl e \<Rightarrow> Inl e
           | Inr elems \<Rightarrow> Inr ((case j of None \<Rightarrow> JNull | Some j' \<Rightarrow> j') # elems)))"
| "content_members [] = Inr []"
| "content_members ((k, x) # ms) =
     (case JSON_content x of
        Inl e \<Rightarrow> Inl e
      | Inr j \<Rightarrow>
          (case content_members ms of
             Inl e \<Rightarrow> Inl e
           | Inr jms \<Rightarrow> Inr ((case j of None \<Rightarrow> [] | Some j' \<Rightarrow> [(k, j')]) @ jms)))"

text \<open>\<open>JSON.stringify(value)\<close>: an exception, \<open>undefined\<close> or a text.\<close>

definition stringify_value :: "jsvalue \<Rightarrow> js_error + utf16 option" where
  "stringify_value v =
     (case JSON_content v of
        Inl e \<Rightarrow> Inl e
      | Inr None \<Rightarrow> Inr None
      | Inr (Some j) \<Rightarrow> Inr (Some (JSON_stringify j)))"


section \<open>The server: \<open>EssenceSSEServer\<close>\<close>

text \<open>
  \<open>RESPONSE_STREAM\<close> is an identity \<open>TransformStream\<close> and
  \<open>RESPONSE_STREAM_WRITER\<close> the writer of its writable side. The model keeps every
  call the code makes on the writer (\<open>calls\<close>), and what the stream does with it:
  a chunk written while the stream is open is queued for the readable side
  (\<open>chunks\<close>, the bytes on the wire, in order); once \<open>close()\<close> has been called,
  \<open>write\<close> and \<open>close\<close> return a rejected promise and change nothing else
  (\<open>rejected\<close>). Neither call throws. The code keeps none of the promises. Whoever
  reads the readable side is taken to leave the stream alone (it does not cancel it).
\<close>

datatype writer_call = Write bytes | Close

record writer =
  calls :: "writer_call list"
  chunks :: "bytes list"
  closed :: bool
  rejected :: "writer_call list"

definition getWriter :: writer where
  "getWriter = \<lparr>calls = [], chunks = [], closed = False, rejected = []\<rparr>"

definition writer_write :: "bytes \<Rightarrow> writer \<Rightarrow> writer" where
  "writer_write c w =
     (if closed w
      then w\<lparr>calls := calls w @ [Write c], rejected := rejected w @ [Write c]\<rparr>
      else w\<lparr>calls := calls w @ [Write c], chunks := chunks w @ [c]\<rparr>)"

definition writer_close :: "writer \<Rightarrow> writer" where
  "writer_close w =
     (if closed w
      then w\<lparr>calls := calls w @ [Close], rejected := rejected w @ [Close]\<rparr>
      else w\<lparr>calls := calls w @ [Close], closed := True\<rparr>)"

text \<open>
  The instance, together with the two things outside it that its methods touch: the
  handler stored in \<open>request.signal.onabort\<close> and the console. The only handler the
  code installs is the arrow function of the constructor.
\<close>

datatype abort_handler = Log_and_closeSSE

record server =
  RESPONSE_STREAM_WRITER :: writer
  eventTag :: utf16
  "open" :: bool
  onabort :: "abort_handler option"
  console :: "utf16 list"

definition console_log :: "utf16 \<Rightarrow> server \<Rightarrow> server" where
  "console_log line s = s\<lparr>console := console s @ [line]\<rparr>"

definition WRITER_write :: "bytes \<Rightarrow> server \<Rightarrow> server" where
  "WRITER_write c s = s\<lparr>RESPONSE_STREAM_WRITER := writer_write c (RESPONSE_STREAM_WRITER s)\<rparr>"

definition WRITER_close :: "server \<Rightarrow> server" where
  "WRITER_close s = s\<lparr>RESPONSE_STREAM_WRITER := writer_close (RESPONSE_STREAM_WRITER s)\<rparr>"

text \<open>\<open>constructor(request, eventTag)\<close>\<close>

definition EssenceSSEServer :: "utf16 \<Rightarrow> server" where
  "EssenceSSEServer tag =
     \<lparr>RESPONSE_STREAM_WRITER = getWriter, eventTag = tag, open = False,
      onabort = Some Log_and_closeSSE, console = []\<rparr>"

text \<open>
  \<open>openSSE()\<close>: the response is built from the readable side of the instance's own
  stream and the header object as written. The constructor of the response is taken to
  accept the stream.
\<close>

datatype body = RESPONSE_STREAM_readable

record response =
  body :: body
  headers :: "(utf16 \<times> utf16) list"

definition openSSE :: "server \<Rightarrow> response \<times> server" where
  "openSSE s =
     (\<lparr>body = RESPONSE_STREAM_readable,
       headers =
         [(js ''Access-Control-Allow-Origin'', js ''*''),
          (js ''Content-Type'', js ''text/event-stream; charset=utf-8''),
          (js ''Connection'', js ''keep-alive''),
          (js ''Cache-Control'', js ''no-cache, no-transform''),
          (js ''X-Accel-Buffering'', js ''no''),
          (js ''Content-Encoding'', js ''none'')]\<rparr>,
      s\<lparr>open := True\<rparr>)"

text \<open>\<open>closeSSE()\<close>\<close>

definition closeSSE :: "server \<Rightarrow> server" where
  "closeSSE s =
     (let s1 = s\<lparr>open := False\<rparr>;
          payload = JSON_stringify TERMINATION_PAYLOAD;
          s2 = WRITER_write (encode (js ''event: '' @ eventTag s1)) s1;
          s3 = WRITER_write (encode payload) s2
      in WRITER_close s3)"

text \<open>
  \<open>pushData(data)\<close>: \<open>JSON.stringify\<close> runs first, and what it throws leaves
  \<open>pushData\<close> before anything is written. (\<open>encode(undefined)\<close> is the
  encoding of the empty string.)
\<close>

definition pushData :: "jsvalue \<Rightarrow> server \<Rightarrow> js_error + server" where
  "pushData data s =
     (case stringify_value (Object [(js ''payload'', data), (js ''status'', String (js ''running''))]) of
        Inl e \<Rightarrow> Inl e
      | Inr payload \<Rightarrow>
          let s1 = WRITER_write (encode (js ''event: '' @ eventTag s)) s
          in Inr (WRITER_write (encode (case payload of None \<Rightarrow> [] | Some text \<Rightarrow> text)) s1))"

text \<open>The abort signal of the request fires: the stored handler, if any, runs.\<close>

definition abort :: "server \<Rightarrow> server" where
  "abort s =
     (case onabort s of
        None \<Rightarrow> s
      | Some Log_and_closeSSE \<Rightarrow> closeSSE (console_log (js ''Connection aborted'') s))"

text \<open>
  A sequence of calls on one instance, in the order they are made. A call of
  \<open>pushData\<close> that throws leaves the instance as it was.
\<close>

datatype server_op = OpenSSE | PushData jsvalue | CloseSSE | Abort

fun step :: "server \<Rightarrow> server_op \<Rightarrow> server" where
  "step s OpenSSE = snd (openSSE s)"
| "step s (PushData v) = (case pushData v s of Inl e \<Rightarrow> s | Inr s' \<Rightarrow> s')"
| "step s CloseSSE = closeSSE s"
| "step s Abort = abort s"

definition run :: "server \<Rightarrow> server_op list \<Rightarrow> server" where
  "run s ops = foldl step s ops"


section \<open>\<open>JSON.parse\<close>\<close>

text \<open>
  The text is cut into tokens, one code unit at a time, and the tokens are assembled
  with a stack of the arrays and objects still open. A number keeps the literal it was
  written with (the value is the double nearest to it; the rounding is not modelled).
\<close>

datatype token =
    TLBrace | TRBrace | TLBrack | TRBrack | TColon | TComma
  | TString utf16 | TNumber utf16 | TTrue | TFalse | TNull

datatype num_state = Minus | Zero | IntDigits | Dot | FracDigits | Exp | ExpSign | ExpDigits

datatype lex_mode =
    Top
  | InString utf16
  | InEscape utf16
  | InHex utf16 nat nat
  | InNumber num_state utf16
  | InLiteral utf16 token

definition is_ws :: "16 word \<Rightarrow> bool" where
  "is_ws c = (c = 0x20 \<or> c = 0x09 \<or> c = 0x0A \<or> c = 0x0D)"

definition is_digit :: "16 word \<Rightarrow> bool" where
  "is_digit c = (0x30 \<le> c \<and> c \<le> 0x39)"

definition hex_value :: "16 word \<Rightarrow> nat option" where
  "hex_value c =
     (if 0x30 \<le> c \<and> c \<le> 0x39 then Some (unat c - 0x30)
      else if 0x41 \<le> c \<and> c \<le> 0x46 then Some (unat c - 0x37)
      else if 0x61 \<le> c \<and> c \<le> 0x66 then Some (unat c - 0x57)
      else None)"

fun num_next :: "num_state \<Rightarrow> 16 word \<Rightarrow> num_state option" where
  "num_next Minus c = (if c = 0x30 then Some Zero else if is_digit c then Some IntDigits else None)"
| "num_next Zero c =
     (if c = 0x2E then Some Dot else if c = 0x65 \<or> c = 0x45 then Some Exp else None)"
| "num_next IntDigits c =
     (if is_digit c then Some IntDigits else if c = 0x2E then Some Dot
      else if c = 0x65 \<or> c = 0x45 then Some Exp else None)"
| "num_next Dot c = (if is_digit c then Some FracDigits else None)"
| "num_next FracDigits c =
     (if is_digit c then Some FracDigits else if c = 0x65 \<or> c = 0x45 then Some Exp else None)"
| "num_next Exp c =
     (if c = 0x2B \<or> c = 0x2D then Some ExpSign else if is_digit c then Some ExpDigits else None)"
| "num_next ExpSign c = (if is_digit c then Some ExpDigits else None)"
| "num_next ExpDigits c = (if is_digit c then Some ExpDigits else None)"

fun num_complete :: "num_state \<Rightarrow> bool" where
  "num_complete Zero = True"
| "num_complete IntDigits = True"
| "num_complete FracDigits = True"
| "num_complete ExpDigits = True"
| "num_complete _ = False"

text \<open>What a code unit starts between two tokens: the tokens it gives and the mode it leaves.\<close>

definition start :: "16 word \<Rightarrow> (token list \<times> lex_mode) option" where
  "start c =
     (if is_ws c then Some ([], Top)
      else if c = 0x7B then Some ([TLBrace], Top)
      else if c = 0x7D then Some ([TRBrace], Top)
      else if c = 0x5B then Some ([TLBrack], Top)
      else if c = 0x5D then Some ([TRBrack], Top)
      else if c = 0x3A then Some ([TColon], Top)
      else if c = 0x2C then Some ([TComma], Top)
      else if c = 0x22 then Some ([], InString [])
      else if c = 0x2D then Some ([], InNumber Minus [c])
      else if c = 0x30 then Some ([], InNumber Zero [c])
      else if is_digit c then Some ([], InNumber IntDigits [c])
      else if c = 0x74 then Some ([], InLiteral (js ''rue'') TTrue)
      else if c = 0x66 then Some ([], InLiteral (js ''alse'') TFalse)
      else if c = 0x6E then Some ([], InLiteral (js ''ull'') TNull)
      else None)"

fun lex_step :: "lex_mode \<Rightarrow> 16 word \<Rightarrow> (token list \<times> lex_mode) option" where
  "lex_step Top c = start c"
| "lex_step (InString s) c =
     (if c = 0x22 then Some ([TString s], Top)
      else if c = 0x5C then Some ([], InEscape s)
      else if c < 0x20 then None
      else Some ([], InString (s @ [c])))"
| "lex_step (InEscape s) c =
     (if c = 0x22 \<or> c = 0x5C \<or> c = 0x2F then Some ([], InString (s @ [c]))
      else if c = 0x62 then Some ([], InString (s @ [0x08]))
      else if c = 0x66 then Some ([], InString (s @ [0x0C]))
      else if c = 0x6E then Some ([], InString (s @ [0x0A]))
      else if c = 0x72 then Some ([], InString (s @ [0x0D]))
      else if c = 0x74 then Some ([], InString (s @ [0x09]))
      else if c = 0x75 then Some ([], InHex s 0 0)
      else None)"
| "lex_step (InHex s k v) c =
     (case hex_value c of
        None \<Rightarrow> None
      | Some d \<Rightarrow>
          if k = 3 then Some ([], InString (s @ [of_nat (v * 16 + d)]))
          else Some ([], InHex s (Suc k) (v * 16 + d)))"
| "lex_step (InNumber st lit) c =
     (case num_next st c of
        Some st' \<Rightarrow> Some ([], InNumber st' (lit @ [c]))
      | None \<Rightarrow>
          if num_complete st
          then (case start c of None \<Rightarrow> None | Some (ts, m) \<Rightarrow> Some (TNumber lit # ts, m))
          else None)"
| "lex_step (InLiteral [] t) c = None"
| "lex_step (InLiteral (x # xs) t) c =
     (if c \<noteq> x then None
      else if xs = [] then Some ([t], Top)
      else Some ([], InLiteral xs t))"

fun lex_end :: "lex_mode \<Rightarrow> token list option" where
  "lex_end Top = Some []"
| "lex_end (InNumber st lit) = (if num_complete st then Some [TNumber lit] else None)"
| "lex_end _ = None"

fun lex :: "lex_mode \<Rightarrow> utf16 \<Rightarrow> token list option" where
  "lex m [] = lex_end m"
| "lex m (c # cs) =
     (case lex_step m c of
        None \<Rightarrow> None
      | Some (ts, m') \<Rightarrow> (case lex m' cs of None \<Rightarrow> None | Some ts' \<Rightarrow> Some (ts @ ts')))"

text \<open>
  Defining a property of an object under construction: a key already present keeps its
  place and takes the new value.
\<close>

fun define_property :: "utf16 \<Rightarrow> 'a \<Rightarrow> (utf16 \<times> 'a) list \<Rightarrow> (utf16 \<times> 'a) list" where
  "define_property k v [] = [(k, v)]"
| "define_property k v ((k', v') # ms) =
     (if k = k' then (k, v) # ms else (k', v') # define_property k v ms)"

datatype frame =
    InArray "utf16 json list"
  | InObject "(utf16 \<times> utf16 json) list"
  | InMember "(utf16 \<times> utf16 json) list" utf16

datatype expect = WantValue | WantValueOrEnd | WantKey | WantKeyOrEnd | WantColon | Have "utf16 json"

text \<open>A token that is, or opens, a value.\<close>

fun value_token :: "frame list \<Rightarrow> token \<Rightarrow> (expect \<times> frame list) option" where
  "value_token st TNull = Some (Have JNull, st)"
| "value_token st TTrue = Some (Have (JBool True), st)"
| "value_token st TFalse = Some (Have (JBool False), st)"
| "value_token st (TString s) = Some (Have (JStr s), st)"
| "value_token st (TNumber lit) = Some (Have (JNum lit), st)"
| "value_token st TLBrack = Some (WantValueOrEnd, InArray [] # st)"
| "value_token st TLBrace = Some (WantKeyOrEnd, InObject [] # st)"
| "value_token st _ = None"

fun parse_step :: "expect \<times> frame list \<Rightarrow> token \<Rightarrow> (expect \<times> frame list) option" where
  "parse_step (WantValue, st) t = value_token st t"
| "parse_step (WantValueOrEnd, st) t =
     (case (t, st) of
        (TRBrack, InArray xs # st') \<Rightarrow> Some (Have (JArr xs), st')
      | _ \<Rightarrow> value_token st t)"
| "parse_step (WantKey, st) t =
     (case (t, st) of
        (TString k, InObject ms # st') \<Rightarrow> Some (WantColon, InMember ms k # st')
      | _ \<Rightarrow> None)"
| "parse_step (WantKeyOrEnd, st) t =
     (case (t, st) of
        (TString k, InObject ms # st') \<Rightarrow> Some (WantColon, InMember ms k # st')
      | (TRBrace, InObject ms # st') \<Rightarrow> Some (Have (JObj ms), st')
      | _ \<Rightarrow> None)"
| "parse_step (WantColon, st) t = (case t of TColon \<Rightarrow> Some (WantValue, st) | _ \<Rightarrow> None)"
| "parse_step (Have v, st) t =
     (case (t, st) of
        (TComma, InArray xs # st') \<Rightarrow> Some (WantValue, InArray (xs @ [v]) # st')
      | (TRBrack, InArray xs # st') \<Rightarrow> Some (Have (JArr (xs @ [v])), st')
      | (TComma, InMember ms k # st') \<Rightarrow> Some (WantKey, InObject (define_property k v ms) # st')
      | (TRBrace, InMember ms k # st') \<Rightarrow> Some (Have (JObj (define_property k v ms)), st')
      | _ \<Rightarrow> None)"

fun parse_tokens :: "expect \<times> frame list \<Rightarrow> token list \<Rightarrow> utf16 json option" where
  "parse_tokens (Have v, []) [] = Some v"
| "parse_tokens c [] = None"
| "parse_tokens c (t # ts) =
     (case parse_step c t of None \<Rightarrow> None | Some c' \<Rightarrow> parse_tokens c' ts)"

definition parse_json :: "utf16 \<Rightarrow> utf16 json option" where
  "parse_json text =
     (case lex Top text of None \<Rightarrow> None | Some ts \<Rightarrow> parse_tokens (WantValue, []) ts)"

text \<open>
  A value at run time. An array or an object has an identity, the address it was created
  at; \<open>reify\<close> creates the objects of a parsed text one after the other from the
  first free address on, and returns the next free one.
\<close>

datatype jsval =
    VNull
  | VBool bool
  | VNum utf16
  | VStr utf16
  | VArr nat "jsval list"
  | VObj nat "(utf16 \<times> jsval) list"

fun reify :: "utf16 json \<Rightarrow> nat \<Rightarrow> jsval \<times> nat"
  and reify_elements :: "utf16 json list \<Rightarrow> nat \<Rightarrow> jsval list \<times> nat"
  and reify_members :: "(utf16 \<times> utf16 json) list \<Rightarrow> nat \<Rightarrow> (utf16 \<times> jsval) list \<times> nat"
where
  "reify JNull n = (VNull, n)"
| "reify (JBool b) n = (VBool b, n)"
| "reify (JNum lit) n = (VNum lit, n)"
| "reify (JStr s) n = (VStr s, n)"
| "reify (JArr xs) n = (case reify_elements xs (Suc n) of (vs, n') \<Rightarrow> (VArr n vs, n'))"
| "reify (JObj ms) n = (case reify_members ms (Suc n) of (vms, n') \<Rightarrow> (VObj n vms, n'))"
| "reify_elements [] n = ([], n)"
| "reify_elements (x # xs) n =
     (case reify x n of (v, n1) \<Rightarrow>
        (case reify_elements xs n1 of (vs, n2) \<Rightarrow> (v # vs, n2)))"
| "reify_members [] n = ([], n)"
| "reify_members ((k, x) # ms) n =
     (case reify x n of (v, n1) \<Rightarrow>
        (case reify_members ms n1 of (vms, n2) \<Rightarrow> ((k, v) # vms, n2)))"

definition JSON_parse :: "utf16 \<Rightarrow> nat \<Rightarrow> js_error + jsval \<times> nat" where
  "JSON_parse text n =
     (case parse_json text of None \<Rightarrow> Inl SyntaxError | Some t \<Rightarrow> Inr (reify t n))"

text \<open>
  \<open>x === y\<close> where \<open>y\<close> is an object, as in the one comparison the code makes:
  true exactly when \<open>x\<close> is that very object.
\<close>

fun identity :: "jsval \<Rightarrow> nat option" where
  "identity (VArr a xs) = Some a"
| "identity (VObj a ms) = Some a"
| "identity _ = None"

definition strict_equals :: "jsval \<Rightarrow> jsval \<Rightarrow> bool" where
  "strict_equals x y = (identity x \<noteq> None \<and> identity x = identity y)"

text \<open>
  \<open>"Parsed payload: " + payload\<close> converts the value to a string. For a value that
  came out of \<open>JSON.parse\<close> the conversion throws a TypeError exactly when it
  reaches an object with an own property \<open>toString\<close> (which is never callable):
  the object itself, or an element of an array, which is joined element by element.
\<close>

fun to_string_throws :: "jsval \<Rightarrow> bool" where
  "to_string_throws (VObj a ms) = (js ''toString'' \<in> set (map fst ms))"
| "to_string_throws (VArr a xs) = list_ex to_string_throws xs"
| "to_string_throws _ = False"


section \<open>The client: \<open>EssenceSSEClient\<close>\<close>

text \<open>
  The \<open>EventSource\<close> (its constructor is taken to accept the URL) with the event
  types the arrow function of the constructor is registered for, and the events it
  delivers.
\<close>

record event_source =
  url :: utf16
  source_closed :: bool
  listeners :: "utf16 list"

record message_event =
  event_type :: utf16
  data :: utf16

datatype console_line = Text utf16 | Parsed_payload jsval

text \<open>
  The instance and what its listener touches: the event source, the objects created so
  far (\<open>next_object\<close> is the first free address), the calls made to the callback
  \<open>dataUpdated\<close> with their arguments, in order, the console, and the exceptions
  that left the listener, which the event dispatch reports. The callback is taken to
  return normally.
\<close>

record client =
  client_eventTag :: utf16
  source :: event_source
  next_object :: nat
  dataUpdated_calls :: "jsval list"
  client_console :: "console_line list"
  reported :: "js_error list"

text \<open>
  Loading the module evaluates the literal of \<open>TERMINATION_PAYLOAD\<close>: the object at
  address 0.
\<close>

definition TERMINATION_OBJECT :: jsval where
  "TERMINATION_OBJECT = fst (reify TERMINATION_PAYLOAD 0)"

text \<open>\<open>constructor(url, eventTag, dataUpdated)\<close>\<close>

definition EssenceSSEClient :: "utf16 \<Rightarrow> utf16 \<Rightarrow> client" where
  "EssenceSSEClient u tag =
     \<lparr>client_eventTag = tag,
      source = \<lparr>url = u, source_closed = False, listeners = [tag]\<rparr>,
      next_object = snd (reify TERMINATION_PAYLOAD 0),
      dataUpdated_calls = [], client_console = [], reported = []\<rparr>"

definition client_log :: "console_line \<Rightarrow> client \<Rightarrow> client" where
  "client_log l c = c\<lparr>client_console := client_console c @ [l]\<rparr>"

definition source_close :: "client \<Rightarrow> client" where
  "source_close c = c\<lparr>source := (source c)\<lparr>source_closed := True\<rparr>\<rparr>"

definition dataUpdated :: "jsval \<Rightarrow> client \<Rightarrow> client" where
  "dataUpdated v c = c\<lparr>dataUpdated_calls := dataUpdated_calls c @ [v]\<rparr>"

text \<open>The listener; the first component is the exception it throws, if any.\<close>

definition listener :: "message_event \<Rightarrow> client \<Rightarrow> js_error option \<times> client" where
  "listener event c =
     (let c1 = client_log (Text (data event)) c in
      case JSON_parse (data event) (next_object c1) of
        Inl e \<Rightarrow> (Some e, c1)
      | Inr (payload, n) \<Rightarrow>
          let c2 = c1\<lparr>next_object := n\<rparr> in
          if to_string_throws payload then (Some TypeError, c2)
          else
            let c3 = client_log (Parsed_payload payload) c2 in
            if strict_equals payload TERMINATION_OBJECT then (None, source_close c3)
            else (None, dataUpdated payload c3))"

text \<open>
  The event source dispatches an event to the listener when it is not closed and the
  listener is registered for the type of the event. An exception of the listener is
  reported and nothing else: the listener stays registered and the source open.
\<close>

definition dispatch :: "client \<Rightarrow> message_event \<Rightarrow> client" where
  "dispatch c event =
     (if source_closed (source c) \<or> event_type event \<notin> set (listeners (source c)) then c
      else
        (case listener event c of
           (None, c') \<Rightarrow> c'
         | (Some e, c') \<Rightarrow> c'\<lparr>reported := reported c' @ [e]\<rparr>))"

definition deliver :: "client \<Rightarrow> message_event list \<Rightarrow> client" where
  "deliver c events = foldl dispatch c events"

text \<open>The frames of the protocol as the event source delivers them.\<close>

definition data_event :: "utf16 \<Rightarrow> number json \<Rightarrow> message_event" where
  "data_event tag v =
     \<lparr>event_type = tag,
      data = JSON_stringify (JObj [(js ''payload'', v), (js ''status'', JStr (js ''running''))])\<rparr>"

definition termination_event :: "utf16 \<Rightarrow> message_event" where
  "termination_event tag = \<lparr>event_type = tag, data = JSON_stringify TERMINATION_PAYLOAD\<rparr>"


section \<open>Notions used by the properties\<close>

text \<open>The bytes of an ASCII literal.\<close>

definition ascii :: "string \<Rightarrow> bytes" where
  "ascii s = map (\<lambda>c. of_nat (of_char c)) s"

text \<open>
  The closed state of the emitter: the flag is down and the write end is closed. An
  instance is live before the first close: the stream is open, the writer has rejected
  nothing and the abort handler of the constructor is in place. The termination frames
  on the wire are counted by their envelope chunks.
\<close>

definition in_closed_state :: "server \<Rightarrow> bool" where
  "in_closed_state s = (\<not> open s \<and> closed (RESPONSE_STREAM_WRITER s))"

definition live :: "server \<Rightarrow> bool" where
  "live s =
     (\<not> closed (RESPONSE_STREAM_WRITER s) \<and> rejected (RESPONSE_STREAM_WRITER s) = []
      \<and> onabort s = Some Log_and_closeSSE)"

definition termination_frames :: "server \<Rightarrow> nat" where
  "termination_frames s =
     count_list (chunks (RESPONSE_STREAM_WRITER s)) (encode (JSON_stringify TERMINATION_PAYLOAD))"


section \<open>Properties of the server\<close>

lemmas server_defs =
  closeSSE_def pushData_def openSSE_def abort_def console_log_def
  WRITER_write_def WRITER_close_def writer_write_def writer_close_def

subsection \<open>The bytes of the chunks\<close>

lemma termination_chunk:
  \<open>encode (JSON_stringify TERMINATION_PAYLOAD) = ascii ''{"payload":null,"status":"terminate"}''\<close>
  by code_simp

lemma is_high_surrogate: "is_high u \<Longrightarrow> is_surrogate u"
  by (simp add: is_high_def is_surrogate_def word_le_nat_alt)

lemma code_points_plain:
  "\<not> is_surrogate u \<Longrightarrow> code_points (u # us) = unat u # code_points us"
  using is_high_surrogate [of u] by (cases us) auto

lemma code_points_append:
  "ys = [] \<or> \<not> is_low (hd ys) \<Longrightarrow> code_points (xs @ ys) = code_points xs @ code_points ys"
proof (induction xs rule: code_points.induct)
  case 1
  show ?case by simp
next
  case (2 u)
  then show ?case by (cases ys) auto
next
  case (3 u v us)
  then show ?case by auto
qed

lemma encode_append:
  "ys = [] \<or> \<not> is_low (hd ys) \<Longrightarrow> encode (xs @ ys) = encode xs @ encode ys"
  by (simp add: encode_def code_points_append)

lemma event_prefix: "encode (js ''event: '' @ tag) = ascii ''event: '' @ encode tag"
  by (simp add: encode_def js_def ascii_def code_points_plain is_surrogate_def utf8_def
      del: code_points.simps)

lemma tag_chunk_not_termination:
  "encode (js ''event: '' @ tag) \<noteq> encode (JSON_stringify TERMINATION_PAYLOAD)"
  by (simp add: event_prefix termination_chunk ascii_def)

lemma envelope_tail:
  \<open>JSON_stringify (JObj [(js ''payload'', v), (js ''status'', JStr (js ''running''))]) =
     (js ''{'' @ JSON_quote (js ''payload'') @ js '':'' @ JSON_stringify v) @
     js '',"status":"running"}''\<close>
proof -
  have \<open>js '','' @ JSON_quote (js ''status'') @ js '':'' @ JSON_quote (js ''running'') @ js ''}''
      = js '',"status":"running"}''\<close>
    by code_simp
  then show ?thesis by simp
qed

text \<open>A data envelope ends in \<open>"running"}\<close>, the termination envelope does not.\<close>

lemma data_chunk_not_termination:
  "encode (JSON_stringify (JObj [(js ''payload'', v), (js ''status'', JStr (js ''running''))]))
     \<noteq> encode (JSON_stringify TERMINATION_PAYLOAD)"
proof
  let ?head = "js ''{'' @ JSON_quote (js ''payload'') @ js '':'' @ JSON_stringify v"
  assume "encode (JSON_stringify (JObj [(js ''payload'', v), (js ''status'', JStr (js ''running''))]))
     = encode (JSON_stringify TERMINATION_PAYLOAD)"
  then have \<open>encode (?head @ js '',"status":"running"}'') =
      ascii ''{"payload":null,"status":"terminate"}''\<close>
    by (simp only: envelope_tail termination_chunk)
  moreover have \<open>encode (?head @ js '',"status":"running"}'') =
      encode ?head @ encode (js '',"status":"running"}'')\<close>
    by (rule encode_append) (simp add: js_def is_low_def)
  moreover have \<open>encode (js '',"status":"running"}'') = ascii '',"status":"running"}''\<close>
    by code_simp
  ultimately have \<open>encode ?head @ ascii '',"status":"running"}'' =
      ascii ''{"payload":null,"status":"terminate"}''\<close>
    by simp
  then have \<open>take 3 (rev (encode ?head @ ascii '',"status":"running"}'')) =
      take 3 (rev (ascii ''{"payload":null,"status":"terminate"}''))\<close>
    by simp
  then show False by (simp add: ascii_def)
qed

text \<open>What \<open>JSON.stringify\<close> makes of the envelope built by \<open>pushData\<close>.\<close>

lemma content_error:
  "JSON_content v = Inl e \<Longrightarrow> e = TypeError"
  "content_elements xs = Inl e \<Longrightarrow> e = TypeError"
  "content_members ms = Inl e \<Longrightarrow> e = TypeError"
  by (induction v and xs and ms rule: JSON_content_content_elements_content_members.induct)
    (auto split: sum.splits)

lemma envelope_content:
  "JSON_content (Object [(p, v), (s, String r)]) =
     (case JSON_content v of
        Inl e \<Rightarrow> Inl e
      | Inr None \<Rightarrow> Inr (Some (JObj [(s, JStr r)]))
      | Inr (Some j) \<Rightarrow> Inr (Some (JObj [(p, j), (s, JStr r)])))"
  by (simp split: sum.split option.split)

lemma envelope_text:
  "stringify_value (Object [(js ''payload'', v), (js ''status'', String (js ''running''))]) =
     (case JSON_content v of
        Inl e \<Rightarrow> Inl TypeError
      | Inr None \<Rightarrow> Inr (Some (JSON_stringify (JObj [(js ''status'', JStr (js ''running''))])))
      | Inr (Some j) \<Rightarrow>
          Inr (Some (JSON_stringify
            (JObj [(js ''payload'', j), (js ''status'', JStr (js ''running''))]))))"
  using content_error(1) [of v]
  by (simp add: stringify_value_def envelope_content split: sum.split option.split)

lemma bare_envelope_not_termination:
  "encode (JSON_stringify (JObj [(js ''status'', JStr (js ''running''))]))
     \<noteq> encode (JSON_stringify TERMINATION_PAYLOAD)"
  by code_simp

lemma envelope_text_not_termination:
  assumes "stringify_value (Object [(js ''payload'', v), (js ''status'', String (js ''running''))])
    = Inr payload"
  shows "encode (case payload of None \<Rightarrow> [] | Some text \<Rightarrow> text)
    \<noteq> encode (JSON_stringify TERMINATION_PAYLOAD)"
  using assms bare_envelope_not_termination data_chunk_not_termination
  by (auto simp: envelope_text split: sum.splits option.splits)

subsection \<open>Sequences of calls\<close>

lemma step_eventTag: "eventTag (step s x) = eventTag s"
  by (cases x)
    (simp_all add: server_defs Let_def split: option.split abort_handler.split sum.split)

lemma run_eventTag: "eventTag (run s ops) = eventTag s"
  unfolding run_def by (induction ops arbitrary: s) (simp_all add: step_eventTag)

lemma run_new_eventTag: "eventTag (run (EssenceSSEServer tag) ops) = tag"
  by (simp add: run_eventTag EssenceSSEServer_def)

lemma run_snoc: "run s (ops @ [x]) = step (run s ops) x"
  by (simp add: run_def)

lemma step_closed:
  "closed (RESPONSE_STREAM_WRITER s) \<Longrightarrow>
   closed (RESPONSE_STREAM_WRITER (step s x)) \<and>
   chunks (RESPONSE_STREAM_WRITER (step s x)) = chunks (RESPONSE_STREAM_WRITER s)"
  by (cases x)
    (simp_all add: server_defs Let_def split: option.split abort_handler.split sum.split)

lemma run_closed:
  "closed (RESPONSE_STREAM_WRITER s) \<Longrightarrow>
   closed (RESPONSE_STREAM_WRITER (run s ops)) \<and>
   chunks (RESPONSE_STREAM_WRITER (run s ops)) = chunks (RESPONSE_STREAM_WRITER s)"
proof (induction ops rule: rev_induct)
  case Nil
  then show ?case by (simp add: run_def)
next
  case (snoc x ops)
  then show ?case using step_closed [of "run s ops" x] by (simp add: run_snoc)
qed

lemma step_open_flag: "x \<noteq> OpenSSE \<Longrightarrow> \<not> open s \<Longrightarrow> \<not> open (step s x)"
  by (cases x)
    (simp_all add: server_defs Let_def split: option.split abort_handler.split sum.split)

lemma run_open_flag: "OpenSSE \<notin> set ops \<Longrightarrow> \<not> open s \<Longrightarrow> \<not> open (run s ops)"
proof (induction ops rule: rev_induct)
  case Nil
  then show ?case by (simp add: run_def)
next
  case (snoc x ops)
  then have "x \<noteq> OpenSSE" and "\<not> open (run s ops)" by auto
  then show ?case using step_open_flag [of x "run s ops"] by (simp add: run_snoc)
qed

text \<open>
  Before the first close an instance is live and has no termination frame on the wire:
  the chunks written so far are tag chunks and data envelopes.
\<close>

lemma step_live:
  assumes "live s \<and> termination_frames s = 0" and "x \<noteq> CloseSSE" and "x \<noteq> Abort"
  shows "live (step s x) \<and> termination_frames (step s x) = 0"
proof (cases x)
  case (PushData v)
  with assms show ?thesis
    using tag_chunk_not_termination [of "eventTag s"] envelope_text_not_termination [of v]
    by (simp add: live_def termination_frames_def server_defs Let_def split: sum.split)
qed (use assms in \<open>simp_all add: live_def termination_frames_def server_defs\<close>)

lemma run_live:
  "\<forall>x\<in>set ops. x \<noteq> CloseSSE \<and> x \<noteq> Abort \<Longrightarrow>
   live (run (EssenceSSEServer tag) ops) \<and> termination_frames (run (EssenceSSEServer tag) ops) = 0"
proof (induction ops rule: rev_induct)
  case Nil
  show ?case
    by (simp add: run_def live_def termination_frames_def EssenceSSEServer_def getWriter_def)
next
  case (snoc x ops)
  then show ?case
    using step_live [of "run (EssenceSSEServer tag) ops" x] by (simp add: run_snoc)
qed

text \<open>What one \<open>closeSSE\<close> does on a live instance, and on one whose stream is closed.\<close>

lemma closeSSE_live:
  assumes "live s"
  shows "chunks (RESPONSE_STREAM_WRITER (closeSSE s)) =
      chunks (RESPONSE_STREAM_WRITER s) @
        [encode (js ''event: '' @ eventTag s), encode (JSON_stringify TERMINATION_PAYLOAD)]"
    and "rejected (RESPONSE_STREAM_WRITER (closeSSE s)) = []"
    and "in_closed_state (closeSSE s)"
    and "termination_frames (closeSSE s) = termination_frames s + 1"
    and "eventTag (closeSSE s) = eventTag s"
  using assms tag_chunk_not_termination [of "eventTag s"]
  by (simp_all add: live_def in_closed_state_def termination_frames_def server_defs Let_def)

lemma closeSSE_closed:
  assumes "closed (RESPONSE_STREAM_WRITER s)"
  shows "chunks (RESPONSE_STREAM_WRITER (closeSSE s)) = chunks (RESPONSE_STREAM_WRITER s)"
    and "rejected (RESPONSE_STREAM_WRITER (closeSSE s)) =
      rejected (RESPONSE_STREAM_WRITER s) @
        [Write (encode (js ''event: '' @ eventTag s)),
         Write (encode (JSON_stringify TERMINATION_PAYLOAD)), Close]"
    and "in_closed_state (closeSSE s)"
    and "termination_frames (closeSSE s) = termination_frames s"
  using assms
  by (simp_all add: in_closed_state_def termination_frames_def server_defs Let_def)

subsection \<open>Frames\<close>

text \<open>
  C5, as stated, fails. \<open>JSON.stringify\<close> runs before the two writes and refuses a
  BigInt and a cyclic object: \<open>pushData\<close> throws a TypeError and no chunk is handed
  to the writer.
\<close>

theorem pushData_throws_before_writing:
  "pushData (BigInt 10) (run (EssenceSSEServer (js ''progress'')) [OpenSSE]) = Inl TypeError
   \<and> pushData (Object [(js ''self'', Cyclic)])
        (run (EssenceSSEServer (js ''progress'')) [OpenSSE]) = Inl TypeError
   \<and> calls (RESPONSE_STREAM_WRITER
        (run (EssenceSSEServer (js ''progress'')) [OpenSSE, PushData (BigInt 10)])) = []"
  by code_simp

text \<open>
  C5, amended. On every instance, whatever was called on it before, and for every value
  \<open>v\<close>: when \<open>JSON.stringify\<close> gives a text for \<open>{ payload: v, status: "running" }\<close>,
  \<open>pushData(v)\<close> returns and hands exactly two chunks to the writer, one after the
  other: the UTF-8 bytes of \<open>"event: "\<close> followed by those of the tag given to the
  constructor, then the UTF-8 bytes of that text; while the stream is open these two
  chunks are what is added to the wire. Otherwise \<open>JSON.stringify\<close> throws a
  TypeError and so does \<open>pushData\<close>, before any write. \<open>JSON.stringify\<close> always
  gives a text or throws here, never \<open>undefined\<close>.
\<close>

theorem pushData_emits_tag_then_envelope:
  "(case stringify_value (Object [(js ''payload'', v), (js ''status'', String (js ''running''))]) of
      Inl e \<Rightarrow> e = TypeError \<and> pushData v (run (EssenceSSEServer tag) ops) = Inl TypeError
    | Inr None \<Rightarrow> False
    | Inr (Some text) \<Rightarrow>
        (\<exists>s'. pushData v (run (EssenceSSEServer tag) ops) = Inr s'
           \<and> calls (RESPONSE_STREAM_WRITER s') =
               calls (RESPONSE_STREAM_WRITER (run (EssenceSSEServer tag) ops)) @
                 [Write (encode (js ''event: '' @ tag)), Write (encode text)]
           \<and> (\<not> closed (RESPONSE_STREAM_WRITER (run (EssenceSSEServer tag) ops)) \<longrightarrow>
               chunks (RESPONSE_STREAM_WRITER s') =
                 chunks (RESPONSE_STREAM_WRITER (run (EssenceSSEServer tag) ops)) @
                   [encode (js ''event: '' @ tag), encode text])))
   \<and> encode (js ''event: '' @ tag) = ascii ''event: '' @ encode tag"
proof -
  let ?envelope = "Object [(js ''payload'', v), (js ''status'', String (js ''running''))]"
  have "stringify_value ?envelope = Inl e \<Longrightarrow> e = TypeError" for e
    by (auto simp: envelope_text split: sum.splits option.splits)
  moreover have "stringify_value ?envelope \<noteq> Inr None"
    by (simp add: envelope_text split: sum.split option.split)
  ultimately show ?thesis
    using event_prefix [of tag]
    by (auto simp: pushData_def WRITER_write_def writer_write_def Let_def run_new_eventTag
        split: sum.splits option.splits)
qed

theorem pushData_emits_tag_then_envelope_witness:
  \<open>\<not> closed (RESPONSE_STREAM_WRITER (run (EssenceSSEServer (js ''progress'')) [OpenSSE]))
   \<and> chunks (RESPONSE_STREAM_WRITER
        (run (EssenceSSEServer (js ''progress''))
           [OpenSSE, PushData (Object [(js ''percent'', Number (Finite 10 0))])])) =
      [ascii ''event: progress'', ascii ''{"payload":{"percent":10},"status":"running"}'']\<close>
proof -
  let ?S = "run (EssenceSSEServer (js ''progress'')) [OpenSSE]"
  let ?v = "Object [(js ''percent'', Number (Finite 10 0))]"
  have open_stream: "\<not> closed (RESPONSE_STREAM_WRITER ?S)"
    by code_simp
  have before: "chunks (RESPONSE_STREAM_WRITER ?S) = []"
    by code_simp
  have envelope: \<open>stringify_value (Object [(js ''payload'', ?v), (js ''status'', String (js ''running''))])
      = Inr (Some (js ''{"payload":{"percent":10},"status":"running"}''))\<close>
    by code_simp
  have c1: "encode (js ''event: '' @ js ''progress'') = ascii ''event: progress''"
    by code_simp
  have c2: \<open>encode (js ''{"payload":{"percent":10},"status":"running"}'')
      = ascii ''{"payload":{"percent":10},"status":"running"}''\<close>
    by code_simp
  from pushData_emits_tag_then_envelope [of ?v "js ''progress''" "[OpenSSE]"] open_stream
  obtain s' where pushed: "pushData ?v ?S = Inr s'"
    and wire: \<open>chunks (RESPONSE_STREAM_WRITER s') =
      chunks (RESPONSE_STREAM_WRITER ?S) @
        [encode (js ''event: '' @ js ''progress''),
         encode (js ''{"payload":{"percent":10},"status":"running"}'')]\<close>
    unfolding envelope by auto
  have "run (EssenceSSEServer (js ''progress'')) [OpenSSE, PushData ?v] = s'"
    using run_snoc [of "EssenceSSEServer (js ''progress'')" "[OpenSSE]" "PushData ?v"] pushed
    by simp
  with wire open_stream show ?thesis
    by (simp only: before c1 c2 append_Nil simp_thms)
qed

text \<open>
  C6. \<open>openSSE\<close> returns a response whose body is the readable side of the stream
  of the instance and whose headers are the six pairs of the specification, in the order
  written, with six distinct names and nothing else; its one effect on the instance is to
  raise the flag.
\<close>

theorem openSSE_response:
  "fst (openSSE s) =
     \<lparr>body = RESPONSE_STREAM_readable,
      headers =
        [(js ''Access-Control-Allow-Origin'', js ''*''),
         (js ''Content-Type'', js ''text/event-stream; charset=utf-8''),
         (js ''Connection'', js ''keep-alive''),
         (js ''Cache-Control'', js ''no-cache, no-transform''),
         (js ''X-Accel-Buffering'', js ''no''),
         (js ''Content-Encoding'', js ''none'')]\<rparr>
   \<and> length (headers (fst (openSSE s))) = 6
   \<and> distinct (map fst (headers (fst (openSSE s))))
   \<and> snd (openSSE s) = s\<lparr>open := True\<rparr>"
proof -
  have "distinct (map fst (headers (fst (openSSE s))))"
    unfolding openSSE_def by code_simp
  then show ?thesis by (simp add: openSSE_def)
qed

text \<open>
  C7. The envelope chunk that \<open>closeSSE\<close> writes is one constant, the bytes of
  \<open>{"payload":null,"status":"terminate"}\<close>: it is the same on every instance,
  whatever its tag and whatever was pushed; only the tag chunk before it names the tag.
\<close>

theorem termination_envelope_constant:
  \<open>calls (RESPONSE_STREAM_WRITER (closeSSE s)) =
     calls (RESPONSE_STREAM_WRITER s) @
       [Write (encode (js ''event: '' @ eventTag s)),
        Write (ascii ''{"payload":null,"status":"terminate"}''),
        Close]\<close>
  by (simp add: server_defs Let_def termination_chunk)

text \<open>
  C10. No method reads the flag \<open>open\<close>: changing it beforehand changes nothing of
  what \<open>pushData\<close>, \<open>closeSSE\<close> and \<open>openSSE\<close> do, except that \<open>pushData\<close>
  leaves the flag as it finds it. On every instance, opened or not, closed or not,
  \<open>pushData(v)\<close> makes the same \<open>write\<close> calls (the two of the frame, or none
  when \<open>JSON.stringify\<close> throws) and \<open>closeSSE\<close> the same two \<open>write\<close> calls
  and \<open>close\<close>: no check stands before them.
\<close>

theorem open_flag_never_read:
  "pushData v (s\<lparr>open := b\<rparr>) = map_sum id (\<lambda>s'. s'\<lparr>open := b\<rparr>) (pushData v s)
   \<and> closeSSE (s\<lparr>open := b\<rparr>) = closeSSE s
   \<and> openSSE (s\<lparr>open := b\<rparr>) = openSSE s
   \<and> calls (RESPONSE_STREAM_WRITER (step s (PushData v))) =
       calls (RESPONSE_STREAM_WRITER s) @
         (case stringify_value
                 (Object [(js ''payload'', v), (js ''status'', String (js ''running''))]) of
            Inl e \<Rightarrow> []
          | Inr payload \<Rightarrow>
              [Write (encode (js ''event: '' @ eventTag s)),
               Write (encode (case payload of None \<Rightarrow> [] | Some text \<Rightarrow> text))])
   \<and> calls (RESPONSE_STREAM_WRITER (closeSSE s)) =
       calls (RESPONSE_STREAM_WRITER s) @
         [Write (encode (js ''event: '' @ eventTag s)),
          Write (encode (JSON_stringify TERMINATION_PAYLOAD)),
          Close]"
  by (simp add: server_defs Let_def split: sum.split)

subsection \<open>Closing\<close>

text \<open>
  C4. On an instance on which neither \<open>closeSSE\<close> was called nor the signal has
  fired, whatever \<open>openSSE\<close> and \<open>pushData\<close> calls were made, the abort signal
  runs \<open>closeSSE\<close> (after one console line): one termination frame, the tag chunk and
  the termination envelope, is added to the wire, which then holds exactly one; no call
  is rejected, and the emitter ends in the closed state.
\<close>

theorem abort_takes_the_closeSSE_path:
  \<open>\<forall>x\<in>set ops. x \<noteq> CloseSSE \<and> x \<noteq> Abort \<Longrightarrow>
   abort (run (EssenceSSEServer tag) ops) =
     closeSSE (console_log (js ''Connection aborted'') (run (EssenceSSEServer tag) ops))
   \<and> chunks (RESPONSE_STREAM_WRITER (abort (run (EssenceSSEServer tag) ops))) =
       chunks (RESPONSE_STREAM_WRITER (run (EssenceSSEServer tag) ops)) @
         [encode (js ''event: '' @ tag), ascii ''{"payload":null,"status":"terminate"}'']
   \<and> termination_frames (abort (run (EssenceSSEServer tag) ops)) = 1
   \<and> rejected (RESPONSE_STREAM_WRITER (abort (run (EssenceSSEServer tag) ops))) = []
   \<and> in_closed_state (abort (run (EssenceSSEServer tag) ops))\<close>
proof -
  let ?s = "run (EssenceSSEServer tag) ops"
  let ?logged = "console_log (js ''Connection aborted'') ?s"
  assume "\<forall>x\<in>set ops. x \<noteq> CloseSSE \<and> x \<noteq> Abort"
  then have s: "live ?s" "termination_frames ?s = 0"
    using run_live [of ops tag] by simp_all
  then have path: "abort ?s = closeSSE ?logged"
    by (simp add: live_def abort_def)
  have logged: "live ?logged" "termination_frames ?logged = 0" "eventTag ?logged = tag"
    using s run_new_eventTag [of tag ops]
    by (simp_all add: live_def termination_frames_def console_log_def)
  have "chunks (RESPONSE_STREAM_WRITER ?logged) = chunks (RESPONSE_STREAM_WRITER ?s)"
    by (simp add: console_log_def)
  with closeSSE_live [OF logged(1)] logged(2,3) path show ?thesis
    by (simp add: termination_chunk)
qed

theorem abort_takes_the_closeSSE_path_witness:
  \<open>chunks (RESPONSE_STREAM_WRITER
      (abort (run (EssenceSSEServer (js ''progress'')) [OpenSSE, PushData (Number (Finite 7 0))]))) =
      [ascii ''event: progress'', ascii ''{"payload":7,"status":"running"}'',
       ascii ''event: progress'', ascii ''{"payload":null,"status":"terminate"}'']
   \<and> in_closed_state
      (abort (run (EssenceSSEServer (js ''progress'')) [OpenSSE, PushData (Number (Finite 7 0))]))\<close>
proof -
  have h: "\<forall>x\<in>set [OpenSSE, PushData (Number (Finite 7 0))]. x \<noteq> CloseSSE \<and> x \<noteq> Abort"
    by simp
  have before: \<open>chunks (RESPONSE_STREAM_WRITER
      (run (EssenceSSEServer (js ''progress'')) [OpenSSE, PushData (Number (Finite 7 0))]))
     = [ascii ''event: progress'', ascii ''{"payload":7,"status":"running"}'']\<close>
    by code_simp
  have tag_chunk: "encode (js ''event: '' @ js ''progress'') = ascii ''event: progress''"
    by code_simp
  note th = abort_takes_the_closeSSE_path [OF h, of "js ''progress''"]
  from th [THEN conjunct2, THEN conjunct1]
    th [THEN conjunct2, THEN conjunct2, THEN conjunct2, THEN conjunct2]
  show ?thesis by (simp only: before tag_chunk append.simps simp_thms)
qed

text \<open>
  C2, as stated, fails. \<open>closeSSE\<close> has no guard, so the second invocation makes
  the same three calls as the first, two \<open>write\<close>s and a second \<open>close\<close> of the
  writer; the stream is closed by then, and each of the three ends in a rejected promise
  that the code has dropped.
\<close>

theorem closeSSE_twice_second_close_rejected:
  \<open>calls (RESPONSE_STREAM_WRITER (closeSSE (closeSSE (EssenceSSEServer (js ''progress''))))) =
     [Write (ascii ''event: progress''),
      Write (ascii ''{"payload":null,"status":"terminate"}''), Close,
      Write (ascii ''event: progress''),
      Write (ascii ''{"payload":null,"status":"terminate"}''), Close]
   \<and> rejected (RESPONSE_STREAM_WRITER (closeSSE (EssenceSSEServer (js ''progress'')))) = []
   \<and> rejected (RESPONSE_STREAM_WRITER
        (closeSSE (closeSSE (EssenceSSEServer (js ''progress''))))) =
     [Write (ascii ''event: progress''),
      Write (ascii ''{"payload":null,"status":"terminate"}''), Close]\<close>
  by code_simp

text \<open>
  C2, amended. On an instance on which neither \<open>closeSSE\<close> was called nor the
  signal has fired, two invocations of \<open>closeSSE\<close> leave exactly one termination
  frame on the wire (the tag chunk and the termination envelope, after what was there)
  and the emitter in the closed state. The first invocation has nothing rejected; the
  second is no no-op: its two \<open>write\<close>s and its \<open>close\<close> are made again and the
  writer rejects all three.
\<close>

theorem closeSSE_twice_one_frame_three_rejections:
  \<open>\<forall>x\<in>set ops. x \<noteq> CloseSSE \<and> x \<noteq> Abort \<Longrightarrow>
   chunks (RESPONSE_STREAM_WRITER (closeSSE (closeSSE (run (EssenceSSEServer tag) ops)))) =
     chunks (RESPONSE_STREAM_WRITER (run (EssenceSSEServer tag) ops)) @
       [encode (js ''event: '' @ tag), ascii ''{"payload":null,"status":"terminate"}'']
   \<and> termination_frames (closeSSE (closeSSE (run (EssenceSSEServer tag) ops))) = 1
   \<and> rejected (RESPONSE_STREAM_WRITER (closeSSE (run (EssenceSSEServer tag) ops))) = []
   \<and> rejected (RESPONSE_STREAM_WRITER (closeSSE (closeSSE (run (EssenceSSEServer tag) ops)))) =
       [Write (encode (js ''event: '' @ tag)),
        Write (ascii ''{"payload":null,"status":"terminate"}''), Close]
   \<and> in_closed_state (closeSSE (closeSSE (run (EssenceSSEServer tag) ops)))\<close>
proof -
  let ?s = "run (EssenceSSEServer tag) ops"
  assume "\<forall>x\<in>set ops. x \<noteq> CloseSSE \<and> x \<noteq> Abort"
  then have s: "live ?s" "termination_frames ?s = 0"
    using run_live [of ops tag] by simp_all
  note first = closeSSE_live [OF s(1)]
  from first(3) have "closed (RESPONSE_STREAM_WRITER (closeSSE ?s))"
    by (simp add: in_closed_state_def)
  note second = closeSSE_closed [OF this]
  from first second s(2) run_new_eventTag [of tag ops] show ?thesis
    by (simp add: termination_chunk)
qed

theorem closeSSE_twice_one_frame_three_rejections_witness:
  \<open>chunks (RESPONSE_STREAM_WRITER
       (closeSSE (closeSSE (run (EssenceSSEServer (js ''progress'')) [OpenSSE, PushData (Number (Finite 7 0))])))) =
      [ascii ''event: progress'', ascii ''{"payload":7,"status":"running"}'',
       ascii ''event: progress'', ascii ''{"payload":null,"status":"terminate"}'']
   \<and> rejected (RESPONSE_STREAM_WRITER
       (closeSSE (closeSSE (run (EssenceSSEServer (js ''progress'')) [OpenSSE, PushData (Number (Finite 7 0))])))) =
      [Write (ascii ''event: progress''),
       Write (ascii ''{"payload":null,"status":"terminate"}''), Close]\<close>
proof -
  have h: "\<forall>x\<in>set [OpenSSE, PushData (Number (Finite 7 0))]. x \<noteq> CloseSSE \<and> x \<noteq> Abort"
    by simp
  have before: \<open>chunks (RESPONSE_STREAM_WRITER
      (run (EssenceSSEServer (js ''progress'')) [OpenSSE, PushData (Number (Finite 7 0))]))
     = [ascii ''event: progress'', ascii ''{"payload":7,"status":"running"}'']\<close>
    by code_simp
  have tag_chunk: "encode (js ''event: '' @ js ''progress'') = ascii ''event: progress''"
    by code_simp
  note th = closeSSE_twice_one_frame_three_rejections [OF h, of "js ''progress''"]
  from th [THEN conjunct1]
    th [THEN conjunct2, THEN conjunct2, THEN conjunct2, THEN conjunct1]
  show ?thesis by (simp only: before tag_chunk append.simps simp_thms)
qed

text \<open>
  C3, as stated, fails. After \<open>openSSE\<close> and \<open>closeSSE\<close> the emitter is in the
  closed state; \<open>openSSE\<close> sets the flag without looking at anything, and the
  emitter is out of the closed state again.
\<close>

theorem openSSE_reopens_closed_emitter:
  "in_closed_state (run (EssenceSSEServer (js ''progress'')) [OpenSSE, CloseSSE])
   \<and> open (run (EssenceSSEServer (js ''progress'')) [OpenSSE, CloseSSE, OpenSSE])
   \<and> \<not> in_closed_state (run (EssenceSSEServer (js ''progress'')) [OpenSSE, CloseSSE, OpenSSE])"
  by code_simp

text \<open>
  C3, amended. What is terminal is the write end: from the closed state on, under every
  sequence of \<open>openSSE\<close>, \<open>pushData\<close>, \<open>closeSSE\<close> and aborts, the stream stays
  closed and the wire keeps the chunks it has. The emitter stays in the closed state
  under every such sequence without \<open>openSSE\<close>.
\<close>

theorem write_end_closed_for_good:
  "in_closed_state s \<Longrightarrow>
   closed (RESPONSE_STREAM_WRITER (run s ops))
   \<and> chunks (RESPONSE_STREAM_WRITER (run s ops)) = chunks (RESPONSE_STREAM_WRITER s)
   \<and> (OpenSSE \<notin> set ops \<longrightarrow> in_closed_state (run s ops))"
  using run_closed [of s ops] run_open_flag [of ops s] by (simp add: in_closed_state_def)

theorem write_end_closed_for_good_witness:
  "in_closed_state (closeSSE (EssenceSSEServer (js ''progress'')))
   \<and> OpenSSE \<notin> set [PushData (Number (Finite 1 0)), CloseSSE, Abort]
   \<and> in_closed_state
       (run (closeSSE (EssenceSSEServer (js ''progress''))) [PushData (Number (Finite 1 0)), CloseSSE, Abort])
   \<and> chunks (RESPONSE_STREAM_WRITER
       (run (closeSSE (EssenceSSEServer (js ''progress''))) [PushData (Number (Finite 1 0)), CloseSSE, Abort]))
      = chunks (RESPONSE_STREAM_WRITER (closeSSE (EssenceSSEServer (js ''progress''))))"
proof -
  have h: "in_closed_state (closeSSE (EssenceSSEServer (js ''progress'')))"
    by code_simp
  from write_end_closed_for_good [OF h, of "[PushData (Number (Finite 1 0)), CloseSSE, Abort]"] h
  show ?thesis by simp
qed


section \<open>Properties of the client\<close>

lemmas client_defs =
  dispatch_def listener_def JSON_parse_def client_log_def source_close_def dataUpdated_def

subsection \<open>A parsed value is never the object of the module\<close>

lemma reify_mono:
  "n \<le> snd (reify t n)"
  "n \<le> snd (reify_elements xs n)"
  "n \<le> snd (reify_members ms n)"
proof (induction t n and xs n and ms n rule: reify_reify_elements_reify_members.induct)
qed (auto split: prod.splits simp: Suc_le_eq dest: order.strict_implies_order)

lemma reify_identity: "identity (fst (reify t n)) = None \<or> identity (fst (reify t n)) = Some n"
  by (cases t) (simp_all split: prod.splits)

lemma TERMINATION_OBJECT_identity: "identity TERMINATION_OBJECT = Some 0"
  by (simp add: TERMINATION_OBJECT_def TERMINATION_PAYLOAD_def)

lemma fresh_never_TERMINATION_OBJECT:
  "0 < n \<Longrightarrow> \<not> strict_equals (fst (reify t n)) TERMINATION_OBJECT"
  using reify_identity [of t n] by (auto simp: strict_equals_def TERMINATION_OBJECT_identity)

lemma reify_result:
  assumes "reify t n = (v, n')" and "0 < n"
  shows "0 < n'" and "\<not> strict_equals v TERMINATION_OBJECT"
proof -
  from assms reify_mono(1) [of n t] show "0 < n'" by simp
  from assms fresh_never_TERMINATION_OBJECT [of n t]
  show "\<not> strict_equals v TERMINATION_OBJECT" by simp
qed

text \<open>So no message closes the event source: the branch with \<open>source.close()\<close> is dead.\<close>

lemma dispatch_source:
  "0 < next_object c \<Longrightarrow> source (dispatch c ev) = source c \<and> 0 < next_object (dispatch c ev)"
  by (auto simp: client_defs Let_def split: option.splits prod.splits sum.splits
      dest: reify_result)

lemma deliver_snoc: "deliver c (evs @ [ev]) = dispatch (deliver c evs) ev"
  by (simp add: deliver_def)

lemma deliver_append: "deliver c (xs @ ys) = deliver (deliver c xs) ys"
  by (simp add: deliver_def)

lemma deliver_source:
  "0 < next_object c \<Longrightarrow> source (deliver c evs) = source c \<and> 0 < next_object (deliver c evs)"
proof (induction evs rule: rev_induct)
  case Nil
  then show ?case by (simp add: deliver_def)
next
  case (snoc ev evs)
  then show ?case using dispatch_source [of "deliver c evs" ev] by (simp add: deliver_snoc)
qed

lemma new_client_next_object: "0 < next_object (EssenceSSEClient u tag)"
  by (simp add: EssenceSSEClient_def TERMINATION_PAYLOAD_def)

lemma subscription_never_closed:
  "source (deliver (EssenceSSEClient u tag) evs) =
     \<lparr>url = u, source_closed = False, listeners = [tag]\<rparr>"
  using deliver_source [OF new_client_next_object, of u tag evs]
  by (simp add: EssenceSSEClient_def)

text \<open>
  After any messages whatever, a termination frame on the tag of the client is parsed
  into a new object and handed to the callback.
\<close>

lemma termination_frame_is_handed_to_dataUpdated:
  "dataUpdated_calls (dispatch (deliver (EssenceSSEClient u tag) evs) (termination_event tag)) =
     dataUpdated_calls (deliver (EssenceSSEClient u tag) evs) @
       [VObj (next_object (deliver (EssenceSSEClient u tag) evs))
          [(js ''payload'', VNull), (js ''status'', VStr (js ''terminate''))]]"
proof -
  let ?c = "deliver (EssenceSSEClient u tag) evs"
  let ?v = "VObj (next_object ?c) [(js ''payload'', VNull), (js ''status'', VStr (js ''terminate''))]"
  have parsed: "parse_json (JSON_stringify TERMINATION_PAYLOAD) = Some TERMINATION_PAYLOAD"
    by code_simp
  have reified: "reify TERMINATION_PAYLOAD (next_object ?c) = (?v, Suc (next_object ?c))"
    by (simp add: TERMINATION_PAYLOAD_def)
  have keys: "js ''toString'' \<noteq> js ''payload''" "js ''toString'' \<noteq> js ''status''"
    by code_simp+
  have "0 < next_object ?c"
    using deliver_source [OF new_client_next_object, of u tag evs] by simp
  then have other: "\<not> strict_equals ?v TERMINATION_OBJECT"
    by (simp add: strict_equals_def TERMINATION_OBJECT_identity)
  show ?thesis
    using other keys
    by (simp add: client_defs Let_def termination_event_def parsed reified
        subscription_never_closed)
qed

subsection \<open>Messages that change nothing\<close>

lemma dispatch_cong:
  assumes "source c = source d" and "next_object c = next_object d"
    and "dataUpdated_calls c = dataUpdated_calls d"
  shows "source (dispatch c ev) = source (dispatch d ev)
    \<and> next_object (dispatch c ev) = next_object (dispatch d ev)
    \<and> dataUpdated_calls (dispatch c ev) = dataUpdated_calls (dispatch d ev)"
  using assms
  by (auto simp: client_defs Let_def split: option.splits prod.splits sum.splits)

lemma deliver_cong:
  assumes "source c = source d" and "next_object c = next_object d"
    and "dataUpdated_calls c = dataUpdated_calls d"
  shows "source (deliver c evs) = source (deliver d evs)
    \<and> next_object (deliver c evs) = next_object (deliver d evs)
    \<and> dataUpdated_calls (deliver c evs) = dataUpdated_calls (deliver d evs)"
proof (induction evs rule: rev_induct)
  case Nil
  from assms show ?case by (simp add: deliver_def)
next
  case (snoc ev evs)
  then show ?case
    using dispatch_cong [of "deliver c evs" "deliver d evs" ev] by (simp add: deliver_snoc)
qed

lemma dispatch_malformed:
  assumes "parse_json (data ev) = None" and "\<not> source_closed (source c)"
    and "event_type ev \<in> set (listeners (source c))"
  shows "dispatch c ev =
    c\<lparr>client_console := client_console c @ [Text (data ev)],
      reported := reported c @ [SyntaxError]\<rparr>"
  using assms by (simp add: client_defs Let_def)

lemma dispatch_other_tag:
  "event_type ev \<notin> set (listeners (source c)) \<Longrightarrow> dispatch c ev = c"
  by (simp add: dispatch_def)

subsection \<open>The claims on the client\<close>

text \<open>
  C1 fails on the code. The listener compares the parsed value with
  \<open>TERMINATION_PAYLOAD\<close> by \<open>===\<close>; what \<open>JSON.parse\<close> returns is a new object,
  never the object of the module, so the comparison is false on every message. For two
  data frames followed by the termination frame, all on the tag of the client, the
  callback is invoked three times, the third time with the termination envelope, and the
  event source is not closed.
\<close>

theorem termination_envelope_reaches_dataUpdated:
  \<open>dataUpdated_calls
     (deliver (EssenceSSEClient (js ''/sse'') (js ''progress''))
        [data_event (js ''progress'') (JObj [(js ''percent'', JNum (Finite 10 0))]),
         data_event (js ''progress'') (JObj [(js ''percent'', JNum (Finite 50 0))]),
         termination_event (js ''progress'')]) =
   [VObj 1 [(js ''payload'', VObj 2 [(js ''percent'', VNum (js ''10''))]),
            (js ''status'', VStr (js ''running''))],
    VObj 3 [(js ''payload'', VObj 4 [(js ''percent'', VNum (js ''50''))]),
            (js ''status'', VStr (js ''running''))],
    VObj 5 [(js ''payload'', VNull), (js ''status'', VStr (js ''terminate''))]]
   \<and> \<not> source_closed (source
       (deliver (EssenceSSEClient (js ''/sse'') (js ''progress''))
        [data_event (js ''progress'') (JObj [(js ''percent'', JNum (Finite 10 0))]),
         data_event (js ''progress'') (JObj [(js ''percent'', JNum (Finite 50 0))]),
         termination_event (js ''progress'')]))\<close>
  by code_simp

text \<open>
  C8. A message on the subscribed tag whose body is not valid JSON, arriving after any
  messages: \<open>JSON.parse\<close> throws in the listener, which has logged the body; the
  SyntaxError is reported, and nothing else changes, so there is no call of
  \<open>dataUpdated\<close> for it; the calls made for the messages before and after it are the
  calls made without it; the source stays open and the listener registered.
\<close>

theorem malformed_message_is_reported_and_skipped:
  "parse_json (data bad) = None \<Longrightarrow> event_type bad = tag \<Longrightarrow>
   dispatch (deliver (EssenceSSEClient u tag) pre) bad =
     (deliver (EssenceSSEClient u tag) pre)
       \<lparr>client_console := client_console (deliver (EssenceSSEClient u tag) pre) @ [Text (data bad)],
        reported := reported (deliver (EssenceSSEClient u tag) pre) @ [SyntaxError]\<rparr>
   \<and> dataUpdated_calls (deliver (EssenceSSEClient u tag) (pre @ bad # post)) =
       dataUpdated_calls (deliver (EssenceSSEClient u tag) (pre @ post))
   \<and> source (deliver (EssenceSSEClient u tag) (pre @ bad # post)) =
       \<lparr>url = u, source_closed = False, listeners = [tag]\<rparr>"
proof -
  assume bad: "parse_json (data bad) = None" and tag: "event_type bad = tag"
  let ?c = "deliver (EssenceSSEClient u tag) pre"
  have src: "source ?c = \<lparr>url = u, source_closed = False, listeners = [tag]\<rparr>"
    by (rule subscription_never_closed)
  have step: "dispatch ?c bad =
      ?c\<lparr>client_console := client_console ?c @ [Text (data bad)],
         reported := reported ?c @ [SyntaxError]\<rparr>"
    using dispatch_malformed [OF bad, of ?c] src tag by simp
  have split: "deliver (EssenceSSEClient u tag) (pre @ bad # post) = deliver (dispatch ?c bad) post"
    by (simp add: deliver_def)
  have "dataUpdated_calls (deliver (dispatch ?c bad) post) = dataUpdated_calls (deliver ?c post)"
    using deliver_cong [of "dispatch ?c bad" ?c post] by (simp add: step)
  then have calls: "dataUpdated_calls (deliver (EssenceSSEClient u tag) (pre @ bad # post)) =
      dataUpdated_calls (deliver (EssenceSSEClient u tag) (pre @ post))"
    by (simp only: split deliver_append [of _ pre post])
  show ?thesis
    using step calls subscription_never_closed [of u tag "pre @ bad # post"] by blast
qed

theorem malformed_message_is_reported_and_skipped_witness:
  \<open>dataUpdated_calls
     (deliver (EssenceSSEClient (js ''/sse'') (js ''progress''))
        ([data_event (js ''progress'') (JObj [(js ''percent'', JNum (Finite 10 0))])] @
         \<lparr>event_type = js ''progress'', data = js ''{oops''\<rparr> #
         [data_event (js ''progress'') (JObj [(js ''percent'', JNum (Finite 50 0))])])) =
   [VObj 1 [(js ''payload'', VObj 2 [(js ''percent'', VNum (js ''10''))]),
            (js ''status'', VStr (js ''running''))],
    VObj 3 [(js ''payload'', VObj 4 [(js ''percent'', VNum (js ''50''))]),
            (js ''status'', VStr (js ''running''))]]\<close>
proof -
  have bad: "parse_json (data \<lparr>event_type = js ''progress'', data = js ''{oops''\<rparr>) = None"
    by code_simp
  have tag: "event_type \<lparr>event_type = js ''progress'', data = js ''{oops''\<rparr> = js ''progress''"
    by simp
  have valid_frames: \<open>dataUpdated_calls
     (deliver (EssenceSSEClient (js ''/sse'') (js ''progress''))
        ([data_event (js ''progress'') (JObj [(js ''percent'', JNum (Finite 10 0))])] @
         [data_event (js ''progress'') (JObj [(js ''percent'', JNum (Finite 50 0))])])) =
   [VObj 1 [(js ''payload'', VObj 2 [(js ''percent'', VNum (js ''10''))]),
            (js ''status'', VStr (js ''running''))],
    VObj 3 [(js ''payload'', VObj 4 [(js ''percent'', VNum (js ''50''))]),
            (js ''status'', VStr (js ''running''))]]\<close>
    by code_simp
  note th = malformed_message_is_reported_and_skipped [OF bad tag, of "js ''/sse''"
      "[data_event (js ''progress'') (JObj [(js ''percent'', JNum (Finite 10 0))])]"
      "[data_event (js ''progress'') (JObj [(js ''percent'', JNum (Finite 50 0))])]"]
  from th [THEN conjunct2, THEN conjunct1] valid_frames show ?thesis
    by (rule trans)
qed

text \<open>
  C9. The listener of a client constructed with tag \<open>a\<close> is registered for \<open>a\<close>
  and nothing else. Events of any other type change nothing, at any point of any stream:
  what the client does on a stream is what it does on the events of type \<open>a\<close> in it.
\<close>

theorem other_tags_never_reach_the_listener:
  "listeners (source (EssenceSSEClient u a)) = [a]
   \<and> deliver (EssenceSSEClient u a) evs =
       deliver (EssenceSSEClient u a) (filter (\<lambda>ev. event_type ev = a) evs)
   \<and> (event_type ev \<noteq> a \<longrightarrow>
       dispatch (deliver (EssenceSSEClient u a) evs) ev = deliver (EssenceSSEClient u a) evs)"
proof -
  have skip: "dispatch (deliver (EssenceSSEClient u a) xs) e = deliver (EssenceSSEClient u a) xs"
    if "event_type e \<noteq> a" for xs e
    using that subscription_never_closed [of u a xs] by (simp add: dispatch_other_tag)
  have "deliver (EssenceSSEClient u a) evs =
      deliver (EssenceSSEClient u a) (filter (\<lambda>ev. event_type ev = a) evs)"
  proof (induction evs rule: rev_induct)
    case Nil
    show ?case by simp
  next
    case (snoc e evs)
    show ?case
    proof (cases "event_type e = a")
      case True
      with snoc show ?thesis by (simp add: deliver_snoc)
    next
      case False
      with snoc skip [of e evs] show ?thesis by (simp add: deliver_snoc)
    qed
  qed
  with skip [of ev evs] show ?thesis by (simp add: EssenceSSEClient_def)
qed

theorem other_tags_never_reach_the_listener_witness:
  "js ''B'' \<noteq> js ''A''
   \<and> dataUpdated_calls
       (dispatch
          (deliver (EssenceSSEClient (js ''/sse'') (js ''A'')) [data_event (js ''A'') (JNum (Finite 1 0))])
          (data_event (js ''B'') (JNum (Finite 2 0)))) =
     [VObj 1 [(js ''payload'', VNum (js ''1'')), (js ''status'', VStr (js ''running''))]]"
proof -
  have diff: "event_type (data_event (js ''B'') (JNum (Finite 2 0))) \<noteq> js ''A''"
    by code_simp
  have tags: "js ''B'' \<noteq> js ''A''"
    by code_simp
  have own_frame:
    "dataUpdated_calls
       (deliver (EssenceSSEClient (js ''/sse'') (js ''A'')) [data_event (js ''A'') (JNum (Finite 1 0))]) =
     [VObj 1 [(js ''payload'', VNum (js ''1'')), (js ''status'', VStr (js ''running''))]]"
    by code_simp
  from other_tags_never_reach_the_listener
    [of "js ''/sse''" "js ''A''" "[data_event (js ''A'') (JNum (Finite 1 0))]" "data_event (js ''B'') (JNum (Finite 2 0))"]
    diff
  have "dispatch
      (deliver (EssenceSSEClient (js ''/sse'') (js ''A'')) [data_event (js ''A'') (JNum (Finite 1 0))])
      (data_event (js ''B'') (JNum (Finite 2 0)))
      = deliver (EssenceSSEClient (js ''/sse'') (js ''A'')) [data_event (js ''A'') (JNum (Finite 1 0))]"
    by blast
  then have "dataUpdated_calls
       (dispatch
          (deliver (EssenceSSEClient (js ''/sse'') (js ''A'')) [data_event (js ''A'') (JNum (Finite 1 0))])
          (data_event (js ''B'') (JNum (Finite 2 0)))) =
     [VObj 1 [(js ''payload'', VNum (js ''1'')), (js ''status'', VStr (js ''running''))]]"
    by (simp only: own_frame)
  with tags show ?thesis by blast
qed

end
